theory Spec2Isabelle
  imports Complex_Main
begin

section \<open>Live transcoding: argument building (pkg/ffmpeg/stream\_transcode.go)\<close>

text \<open>
  The encoder's command line is a Go slice of strings. Codec, filter, audio codec and
  container format are string-typed names; the zero value of each is the empty string.
\<close>

type_synonym Args = "string list"
type_synonym VideoCodec = string
type_synonym VideoFilter = string
type_synonym AudioCodec = string
type_synonym Format = string
type_synonym StreamingResolutionEnum = string

subsection \<open>Names declared outside stream\_transcode.go\<close>

text \<open>
  Modelled from the spec: the MIME-type constants of the three containers (MP4, WebM,
  Matroska) are declared in a file that is not at hand. The spec names three distinct
  containers, each with its own MIME type; the values are their media types.
\<close>

definition MimeMp4Video :: string where "MimeMp4Video = ''video/mp4''"
definition MimeWebmVideo :: string where "MimeWebmVideo = ''video/webm''"
definition MimeMkvVideo :: string where "MimeMkvVideo = ''video/x-matroska''"

text \<open>
  Modelled from the spec: the VideoCodec constants are declared in files that are not at
  hand. The spec describes an enumeration of software codecs (H.264 software encoder,
  VP9), hardware variants per vendor family and a pass-through copy codec; each constant
  is the name under which the external encoder knows the codec.
\<close>

definition VideoCodecLibX264 :: VideoCodec where "VideoCodecLibX264 = ''libx264''"
definition VideoCodecVP9 :: VideoCodec where "VideoCodecVP9 = ''libvpx-vp9''"
definition VideoCodecCopy :: VideoCodec where "VideoCodecCopy = ''copy''"
definition VideoCodecN264 :: VideoCodec where "VideoCodecN264 = ''h264_nvenc''"
definition VideoCodecI264 :: VideoCodec where "VideoCodecI264 = ''h264_qsv''"
definition VideoCodecV264 :: VideoCodec where "VideoCodecV264 = ''h264_vaapi''"
definition VideoCodecA264 :: VideoCodec where "VideoCodecA264 = ''h264_amf''"
definition VideoCodecM264 :: VideoCodec where "VideoCodecM264 = ''h264_videotoolbox''"
definition VideoCodecO264 :: VideoCodec where "VideoCodecO264 = ''h264_omx''"
definition VideoCodecIVP9 :: VideoCodec where "VideoCodecIVP9 = ''vp9_qsv''"
definition VideoCodecVVP9 :: VideoCodec where "VideoCodecVVP9 = ''vp9_vaapi''"



text \<open>
  Modelled from the spec: the log level, the audio codec and the container formats that
  stream\_transcode.go names are declared in a file that is not at hand; each is the
  word the external encoder uses.
\<close>

definition LogLevelError :: string where "LogLevelError = ''error''"
definition AudioCodecLibOpus :: AudioCodec where "AudioCodecLibOpus = ''libopus''"
definition FormatMP4 :: Format where "FormatMP4 = ''mp4''"
definition FormatWebm :: Format where "FormatWebm = ''webm''"
definition FormatMatroska :: Format where "FormatMatroska = ''matroska''"

subsection \<open>The argument builders\<close>

text \<open>
  Modelled from the spec: the builder methods of Args (VideoCodec, VideoFilter,
  SkipAudio, AudioCodec, Format, LogLevel, Input, Output) are declared in a file that is
  not at hand. The spec describes them as typed builders for encoder flags, pure and
  stateless: each returns the list with its flag appended; a filter is applied only if
  it is non-empty (the empty filter means no transform), and SkipAudio omits the audio
  track. A builder given an empty name appends nothing. The flags are the external
  encoder's.
\<close>

definition Args_VideoCodec :: "Args \<Rightarrow> VideoCodec \<Rightarrow> Args" where
  "Args_VideoCodec a c = (if c = [] then a else a @ [''-c:v'', c])"

definition Args_VideoFilter :: "Args \<Rightarrow> VideoFilter \<Rightarrow> Args" where
  "Args_VideoFilter a vf = (if vf = [] then a else a @ [''-vf'', vf])"

definition Args_SkipAudio :: "Args \<Rightarrow> Args" where
  "Args_SkipAudio a = a @ [''-an'']"

definition Args_AudioCodec :: "Args \<Rightarrow> AudioCodec \<Rightarrow> Args" where
  "Args_AudioCodec a c = (if c = [] then a else a @ [''-c:a'', c])"

definition Args_Format :: "Args \<Rightarrow> Format \<Rightarrow> Args" where
  "Args_Format a f = (if f = [] then a else a @ [''-f'', f])"

definition Args_LogLevel :: "Args \<Rightarrow> string \<Rightarrow> Args" where
  "Args_LogLevel a l = (if l = [] then a else a @ [''-v'', l])"

definition Args_Input :: "Args \<Rightarrow> string \<Rightarrow> Args" where
  "Args_Input a i = a @ [''-i'', i]"

definition Args_Output :: "Args \<Rightarrow> string \<Rightarrow> Args" where
  "Args_Output a out = a @ [out]"


subsection \<open>CodecInit\<close>

text \<open>
  The codec flag first, then the tuning flags of the codec. The switch has no default
  case: a codec it does not list gets the codec flag alone.
\<close>

definition CodecInit :: "VideoCodec \<Rightarrow> Args" where
  "CodecInit codec =
     (let args = Args_VideoCodec [] codec in
      if codec = VideoCodecLibX264 then
        args @ [''-pix_fmt'', ''yuv420p'', ''-preset'', ''veryfast'', ''-crf'', ''25'',
                ''-sc_threshold'', ''0'']
      else if codec = VideoCodecVP9 then
        args @ [''-pix_fmt'', ''yuv420p'', ''-deadline'', ''realtime'', ''-cpu-used'', ''5'',
                ''-row-mt'', ''1'', ''-crf'', ''30'', ''-b:v'', ''0'']
      else if codec = VideoCodecN264 then args @ [''-rc'', ''vbr'', ''-cq'', ''15'']
      else if codec = VideoCodecI264 then
        args @ [''-global_quality'', ''20'', ''-preset'', ''faster'']
      else if codec = VideoCodecV264 then args @ [''-qp'', ''20'']
      else if codec = VideoCodecA264 then args @ [''-quality'', ''speed'']
      else if codec = VideoCodecM264 then args @ [''-prio_speed'', ''1'']
      else if codec = VideoCodecO264 then args @ [''-preset'', ''superfast'', ''-crf'', ''25'']
      else if codec = VideoCodecIVP9 then
        args @ [''-global_quality'', ''20'', ''-preset'', ''faster'']
      else if codec = VideoCodecVVP9 then args @ [''-qp'', ''20'']
      else args)"

subsection \<open>The three stream formats\<close>

record StreamFormat =
  MimeType :: string
  Args :: "VideoCodec \<Rightarrow> VideoFilter \<Rightarrow> bool \<Rightarrow> Args"

definition StreamTypeMP4 :: StreamFormat where
  "StreamTypeMP4 =
     \<lparr>MimeType = MimeMp4Video,
      Args = (\<lambda>codec videoFilter videoOnly.
        let args = CodecInit codec;
            args = args @ [''-movflags'', ''frag_keyframe+empty_moov''];
            args = Args_VideoFilter args videoFilter;
            args = (if videoOnly then Args_SkipAudio args else args @ [''-ac'', ''2''])
        in Args_Format args FormatMP4)\<rparr>"

definition StreamTypeWEBM :: StreamFormat where
  "StreamTypeWEBM =
     \<lparr>MimeType = MimeWebmVideo,
      Args = (\<lambda>codec videoFilter videoOnly.
        let args = CodecInit codec;
            args = Args_VideoFilter args videoFilter;
            args = (if videoOnly then Args_SkipAudio args else args @ [''-ac'', ''2''])
        in Args_Format args FormatWebm)\<rparr>"

definition StreamTypeMKV :: StreamFormat where
  "StreamTypeMKV =
     \<lparr>MimeType = MimeMkvVideo,
      Args = (\<lambda>codec videoFilter videoOnly.
        let args = CodecInit codec;
            args = (if videoOnly then Args_SkipAudio args
                    else Args_AudioCodec args AudioCodecLibOpus
                           @ [''-b:a'', ''96k'', ''-vbr'', ''on'', ''-ac'', ''2''])
        in Args_Format args FormatMatroska)\<rparr>"


subsection \<open>Errors, the logger and the response writer\<close>

text \<open>
  Go's error values, as far as this file looks at them: the text \<open>Error()\<close> returns,
  whether the value is an operating-system error number (\<open>syscall.Errno\<close>), the exit
  error of a process (\<open>*exec.ExitError\<close>) or a plain text (\<open>errors.New\<close>), and the
  error it wraps, if any. \<open>errors.Is\<close> with an error number as its target and
  \<open>errors.As\<close> with an exit error as its target both walk the chain of wrapped
  errors.
\<close>

datatype error =
    errorString (Error: string)
  | Errno (Error: string) nat
  | ExitError (Error: string)
  | wrapError (Error: string) error

definition EPIPE :: nat where "EPIPE = 32"

fun errors_Is_Errno :: "error \<Rightarrow> nat \<Rightarrow> bool" where
  "errors_Is_Errno (Errno _ n) target = (n = target)"
| "errors_Is_Errno (wrapError _ e) target = errors_Is_Errno e target"
| "errors_Is_Errno (errorString _) target = False"
| "errors_Is_Errno (ExitError _) target = False"

fun errors_As_ExitError :: "error \<Rightarrow> bool" where
  "errors_As_ExitError (ExitError _) = True"
| "errors_As_ExitError (wrapError _ e) = errors_As_ExitError e"
| "errors_As_ExitError (errorString _) = False"
| "errors_As_ExitError (Errno _ _) = False"

fun strings_Join :: "string list \<Rightarrow> string \<Rightarrow> string" where
  "strings_Join [] sep = []"
| "strings_Join [x] sep = x"
| "strings_Join (x # y # ys) sep = x @ sep @ strings_Join (y # ys) sep"

datatype log_entry = Errorf string | Warnf string

text \<open>
  The response writer is modelled by the calls the program makes on it, in order. Whether
  a write to the client succeeds is the client's doing: \<open>writeResult w k\<close> is the
  result of a \<open>Write\<close> issued when \<open>k\<close> calls have been made before it.
\<close>

datatype call =
    Header_Set string string
  | WriteHeader nat
  | Write string
  | Flush

record ResponseWriter =
  calls :: "call list"
  writeResult :: "nat \<Rightarrow> error option"

definition ResponseWriter_Header_Set :: "ResponseWriter \<Rightarrow> string \<Rightarrow> string \<Rightarrow> ResponseWriter" where
  "ResponseWriter_Header_Set w k v = w\<lparr>calls := calls w @ [Header_Set k v]\<rparr>"

definition ResponseWriter_WriteHeader :: "ResponseWriter \<Rightarrow> nat \<Rightarrow> ResponseWriter" where
  "ResponseWriter_WriteHeader w code = w\<lparr>calls := calls w @ [WriteHeader code]\<rparr>"

definition ResponseWriter_Write :: "ResponseWriter \<Rightarrow> string \<Rightarrow> ResponseWriter \<times> error option" where
  "ResponseWriter_Write w b = (w\<lparr>calls := calls w @ [Write b]\<rparr>, writeResult w (length (calls w)))"

definition ResponseWriter_Flush :: "ResponseWriter \<Rightarrow> ResponseWriter" where
  "ResponseWriter_Flush w = w\<lparr>calls := calls w @ [Flush]\<rparr>"

definition StatusOK :: nat where "StatusOK = 200"
definition StatusBadRequest :: nat where "StatusBadRequest = 400"

text \<open>
  The standard output of the process is the chunks it delivers, in order, and how the
  stream ends: \<open>None\<close> is the end of the file, \<open>Some e\<close> a read error. \<open>io.Copy\<close>
  writes each chunk as it is read, stops at the first write that fails and returns
  that error; at the end of the source it returns the read error, if any.
\<close>

record Reader =
  chunks :: "string list"
  readErr :: "error option"

fun io_Copy :: "ResponseWriter \<Rightarrow> string list \<Rightarrow> error option \<Rightarrow> ResponseWriter \<times> error option" where
  "io_Copy w [] rerr = (w, rerr)"
| "io_Copy w (b # bs) rerr =
     (case ResponseWriter_Write w b of
        (w', Some e) \<Rightarrow> (w', Some e)
      | (w', None) \<Rightarrow> io_Copy w' bs rerr)"

subsection \<open>The command and the lock context\<close>

text \<open>
  What the operating system answers to the four steps of a command is an input of the
  model: the two pipe set-ups (the standard error pipe stands for the text that
  \<open>io.ReadAll\<close> will read from it), the start and the wait. The standard output
  pipe stands for what the process writes to it.

  \<open>Wait\<close> also closes the read end of the standard output pipe. The goroutine calls
  it while the handler may still be copying, so what the handler gets to read depends
  on when that happens: \<open>WaitClosesStdout cmd = Some k\<close> says that the pipe is closed
  when the handler has read \<open>k\<close> chunks, so that its next read fails and the chunks
  after these are lost; \<open>None\<close>, or a \<open>k\<close> beyond the last chunk, says that the
  copy ends before the pipe is closed.
\<close>

record Cmd =
  cmd_Args :: "string list"
  StdoutPipe :: "error + Reader"
  StderrPipe :: "error + string"
  Start :: "error option"
  Wait :: "error option"
  WaitClosesStdout :: "nat option"

text \<open>
  The error of a read from a pipe that has been closed: a path error around
  \<open>os.ErrClosed\<close>. It is neither a broken pipe nor an exit error.
\<close>

definition ErrClosed :: error where
  "ErrClosed = errorString ''file already closed''"

definition readAfterClose :: error where
  "readAfterClose = wrapError ''read |0: file already closed'' ErrClosed"

definition stdoutUnderWait :: "Cmd \<Rightarrow> Reader \<Rightarrow> Reader" where
  "stdoutUnderWait cmd stdout =
     (case WaitClosesStdout cmd of
        None \<Rightarrow> stdout
      | Some k \<Rightarrow>
          if k \<le> length (chunks stdout)
          then \<lparr>chunks = take k (chunks stdout), readErr = Some readAfterClose\<rparr>
          else stdout)"

text \<open>
  Modelled from the spec: LockContext, its AttachCommand and the lock manager's ReadLock
  are declared in packages that are not at hand. The spec: a lock context is a scoped
  handle, bound to one request, that may have a running process attached;
  attachProcess(handle) records the running process. The model keeps every handle that
  was attached, in order, so that having at most one is a property of the program and
  not of the type. ReadLock hands out a new context with nothing attached; that it may
  block is not modelled.
\<close>

record LockContext =
  attached :: "Cmd list"

definition AttachCommand :: "LockContext \<Rightarrow> Cmd \<Rightarrow> LockContext" where
  "AttachCommand ctx cmd = ctx\<lparr>attached := attached ctx @ [cmd]\<rparr>"

definition ReadLock :: "string \<Rightarrow> LockContext" where
  "ReadLock path = \<lparr>attached = []\<rparr>"

subsection \<open>The stream manager's collaborators\<close>

text \<open>
  The hardware prober, the command factory and the configuration are interfaces only:
  what they answer is an input of the model. \<open>hwCodecMP4Compatible\<close> and
  \<open>hwCodecWEBMCompatible\<close> return a pointer to a codec in the source (nil when no
  hardware codec fits), here an option.
\<close>

record FFMpeg =
  hwCodecMP4Compatible :: "VideoCodec option"
  hwCodecWEBMCompatible :: "VideoCodec option"
  hwDeviceInit :: "Args \<Rightarrow> VideoCodec \<Rightarrow> Args"
  hwMaxResFilter :: "VideoCodec \<Rightarrow> int \<Rightarrow> int \<Rightarrow> int \<Rightarrow> VideoFilter"
  Command :: "LockContext \<Rightarrow> Args \<Rightarrow> Cmd"

record Config =
  GetTranscodeHardwareAcceleration :: bool
  GetMaxStreamingTranscodeSize :: StreamingResolutionEnum
  GetLiveTranscodeInputArgs :: "string list"
  GetLiveTranscodeOutputArgs :: "string list"

record StreamManager =
  encoder :: FFMpeg
  config :: Config

text \<open>
  Functions of other packages that makeStreamArgs calls and that are not at hand are
  inputs of the model as well: the resolution table \<open>GetMaxResolution\<close>, the audio
  probe \<open>ProbeAudioCodec\<close> with its value \<open>MissingUnsupported\<close>, and the \<open>Seek\<close>
  builder, which prints a floating-point number.
\<close>

record Deps =
  GetMaxResolution :: "StreamingResolutionEnum \<Rightarrow> int"
  ProbeAudioCodec :: "string \<Rightarrow> string"
  MissingUnsupported :: string
  Seek :: "Args \<Rightarrow> real \<Rightarrow> Args"

text \<open>The video file descriptor and the options of one request.\<close>

record VideoFile =
  Path :: string
  Width :: int
  Height :: int
  AudioCodec :: string

record TranscodeOptions =
  StreamType :: StreamFormat
  VideoFile :: VideoFile
  Resolution :: string
  StartTime :: real

subsection \<open>FileGetCodec\<close>

text \<open>
  The switch on the MIME type takes the first matching case; an unsupported MIME type
  leaves the named result at its zero value, the empty codec name. In each hardware
  branch the probe is called first and the configuration is read only when the probe
  answered.
\<close>

definition FileGetCodec :: "StreamManager \<Rightarrow> string \<Rightarrow> VideoCodec" where
  "FileGetCodec sm mimetype =
     (if mimetype = MimeMp4Video then
        (case hwCodecMP4Compatible (encoder sm) of
           Some hwcodec \<Rightarrow>
             if GetTranscodeHardwareAcceleration (config sm) then hwcodec
             else VideoCodecLibX264
         | None \<Rightarrow> VideoCodecLibX264)
      else if mimetype = MimeWebmVideo then
        (case hwCodecWEBMCompatible (encoder sm) of
           Some hwcodec \<Rightarrow>
             if GetTranscodeHardwareAcceleration (config sm) then hwcodec
             else VideoCodecVP9
         | None \<Rightarrow> VideoCodecVP9)
      else if mimetype = MimeMkvVideo then VideoCodecCopy
      else [])"

subsection \<open>makeStreamArgs\<close>

text \<open>
  The receiver is the option set of the request. The video file descriptor is a pointer
  in the source; the model takes it as present. A start time is compared with zero as a
  real number.
\<close>

definition makeStreamArgs :: "Deps \<Rightarrow> StreamManager \<Rightarrow> TranscodeOptions \<Rightarrow> Args" where
  "makeStreamArgs d sm options =
     (let maxTranscodeSize = GetMaxResolution d (GetMaxStreamingTranscodeSize (config sm));
          maxTranscodeSize =
            (if Resolution options \<noteq> [] then GetMaxResolution d (Resolution options)
             else maxTranscodeSize);
          extraInputArgs = GetLiveTranscodeInputArgs (config sm);
          extraOutputArgs = GetLiveTranscodeOutputArgs (config sm);
          args = [''-hide_banner''];
          args = Args_LogLevel args LogLevelError;
          codec = FileGetCodec sm (MimeType (StreamType options));
          args = hwDeviceInit (encoder sm) args codec;
          args = args @ extraInputArgs;
          args = (if StartTime options \<noteq> 0 then Seek d args (StartTime options) else args);
          args = Args_Input args (Path (VideoFile options));
          videoOnly =
            (ProbeAudioCodec d (AudioCodec (VideoFile options)) = MissingUnsupported d);
          videoFilter =
            hwMaxResFilter (encoder sm) codec (Width (VideoFile options))
              (Height (VideoFile options)) maxTranscodeSize;
          args = args @ Args (StreamType options) codec videoFilter videoOnly;
          args = args @ extraOutputArgs
      in Args_Output args ''pipe:'')"

subsection \<open>getTranscodeStream\<close>

text \<open>
  The handler that getTranscodeStream returns is a closure over the MIME type and the
  standard output of the process; it does not read the request. It yields the writer
  after its calls and what it logged. The writer is taken to be a flusher, as the
  writers of the HTTP server are (the source asserts it without a check).
\<close>

type_synonym HandlerFunc = "ResponseWriter \<Rightarrow> ResponseWriter \<times> log_entry list"

definition transcodeHandler :: "string \<Rightarrow> Reader \<Rightarrow> HandlerFunc" where
  "transcodeHandler mimeType stdout w =
     (let w = ResponseWriter_Header_Set w ''Cache-Control'' ''no-store'';
          w = ResponseWriter_Header_Set w ''Content-Type'' mimeType;
          w = ResponseWriter_WriteHeader w StatusOK;
          (w, err) = io_Copy w (chunks stdout) (readErr stdout);
          logged =
            (case err of
               None \<Rightarrow> []
             | Some e \<Rightarrow>
                 if \<not> errors_Is_Errno e EPIPE
                 then [Errorf (''[transcode] error serving transcoded video file: '' @ Error e)]
                 else []);
          w = ResponseWriter_Flush w
      in (w, logged))"

text \<open>The writer after the three header calls with which the handler begins.\<close>

definition headers_written :: "string \<Rightarrow> ResponseWriter \<Rightarrow> ResponseWriter" where
  "headers_written mimeType w =
     ResponseWriter_WriteHeader
       (ResponseWriter_Header_Set (ResponseWriter_Header_Set w ''Cache-Control'' ''no-store'')
          ''Content-Type'' mimeType) StatusOK"

text \<open>
  The goroutine that drains the standard error: it reads the whole text, waits for the
  process, and logs. Its only effect is what it logs.
\<close>

definition stderrDrain :: "Cmd \<Rightarrow> string \<Rightarrow> log_entry list" where
  "stderrDrain cmd errStr =
     (let errCmd = Wait cmd;
          e = errStr;
          err = (if e \<noteq> [] then Some (errorString e) else errCmd)
      in case err of
           None \<Rightarrow> []
         | Some x \<Rightarrow>
             if \<not> errors_As_ExitError x
             then [Errorf (''[transcode] ffmpeg error when running command <''
                     @ strings_Join (cmd_Args cmd) '' '' @ ''>: '' @ Error x)]
             else [])"

text \<open>
  The result of getTranscodeStream: the pair the source returns (an error, or the
  handler), the lock context after the call, what was logged, and what the goroutine
  logs when it was started (it runs beside the handler, so its log is kept apart). The
  handler reads the standard output as the goroutine's wait leaves it.
\<close>

record StreamStart =
  ret :: "error + HandlerFunc"
  lockCtx :: LockContext
  logged :: "log_entry list"
  spawned :: "log_entry list option"

definition getTranscodeStream ::
    "Deps \<Rightarrow> StreamManager \<Rightarrow> LockContext \<Rightarrow> TranscodeOptions \<Rightarrow> StreamStart" where
  "getTranscodeStream d sm ctx options =
     (let args = makeStreamArgs d sm options;
          cmd = Command (encoder sm) ctx args
      in case StdoutPipe cmd of
           Inl err \<Rightarrow>
             \<lparr>ret = Inl err, lockCtx = ctx,
              logged = [Errorf (''[transcode] ffmpeg stdout not available: '' @ Error err)],
              spawned = None\<rparr>
         | Inr stdout \<Rightarrow>
             (case StderrPipe cmd of
                Inl err \<Rightarrow>
                  \<lparr>ret = Inl err, lockCtx = ctx,
                   logged = [Errorf (''[transcode] ffmpeg stderr not available: '' @ Error err)],
                   spawned = None\<rparr>
              | Inr stderr \<Rightarrow>
                  (case Start cmd of
                     Some err \<Rightarrow> \<lparr>ret = Inl err, lockCtx = ctx, logged = [], spawned = None\<rparr>
                   | None \<Rightarrow>
                       \<lparr>ret = Inr (transcodeHandler (MimeType (StreamType options))
                                     (stdoutUnderWait cmd stdout)),
                        lockCtx = AttachCommand ctx cmd,
                        logged = [],
                        spawned = Some (stderrDrain cmd stderr)\<rparr>)))"

subsection \<open>ServeTranscode\<close>

record Served =
  response :: ResponseWriter
  served_ctx :: LockContext
  served_log :: "log_entry list"
  served_spawned :: "log_entry list option"

definition ServeTranscode ::
    "Deps \<Rightarrow> StreamManager \<Rightarrow> ResponseWriter \<Rightarrow> TranscodeOptions \<Rightarrow> Served" where
  "ServeTranscode d sm w options =
     (let ctx = ReadLock (Path (VideoFile options));
          r = getTranscodeStream d sm ctx options
      in case ret r of
           Inl err \<Rightarrow>
             (let l = logged r @ [Errorf (''[transcode] error transcoding video file: '' @ Error err)];
                  w = ResponseWriter_WriteHeader w StatusBadRequest;
                  (w, werr) = ResponseWriter_Write w (Error err);
                  l = (case werr of
                         None \<Rightarrow> l
                       | Some e \<Rightarrow> l @ [Warnf (''[transcode] error writing response: '' @ Error e)])
              in \<lparr>response = w, served_ctx = lockCtx r, served_log = l,
                  served_spawned = spawned r\<rparr>)
         | Inr handler \<Rightarrow>
             (let (w, l) = handler w
              in \<lparr>response = w, served_ctx = lockCtx r, served_log = logged r @ l,
                  served_spawned = spawned r\<rparr>))"

subsection \<open>Example inputs\<close>

text \<open>
  A concrete stream manager, file and request, on which the theorems below are run:
  hardware acceleration is off, the configured maximum is full HD, the file is a 4K
  video without a usable audio stream, and the process, once started, delivers two
  chunks and is then killed. Variants of it fail to start, write to the standard error,
  or have the pipe closed by the wait after the first chunk.
\<close>

definition example_deps :: Deps where
  "example_deps =
     \<lparr>GetMaxResolution = (\<lambda>e. if e = ''LOW'' then 240 else if e = ''FULL_HD'' then 1080 else 0),
      ProbeAudioCodec = (\<lambda>c. c),
      MissingUnsupported = [],
      Seek = (\<lambda>a t. a @ [''-ss'', ''start''])\<rparr>"

definition example_cmd :: Cmd where
  "example_cmd =
     \<lparr>cmd_Args = [''ffmpeg''],
      StdoutPipe = Inr \<lparr>chunks = [''ab'', ''cd''], readErr = None\<rparr>,
      StderrPipe = Inr [],
      Start = None,
      Wait = Some (ExitError ''signal: killed''),
      WaitClosesStdout = None\<rparr>"

definition example_encoder :: FFMpeg where
  "example_encoder =
     \<lparr>hwCodecMP4Compatible = Some VideoCodecN264,
      hwCodecWEBMCompatible = None,
      hwDeviceInit = (\<lambda>args codec. args),
      hwMaxResFilter = (\<lambda>codec w h m.
         if m = 240 then ''scale=-2:240'' else if m = 1080 then ''scale=-2:1080'' else []),
      Command = (\<lambda>ctx args. example_cmd\<lparr>cmd_Args := ''ffmpeg'' # args\<rparr>)\<rparr>"

definition example_config :: Config where
  "example_config =
     \<lparr>GetTranscodeHardwareAcceleration = False,
      GetMaxStreamingTranscodeSize = ''FULL_HD'',
      GetLiveTranscodeInputArgs = [],
      GetLiveTranscodeOutputArgs = []\<rparr>"

definition example_sm :: StreamManager where
  "example_sm = \<lparr>encoder = example_encoder, config = example_config\<rparr>"

definition example_file :: VideoFile where
  "example_file = \<lparr>Path = ''/v/a.mkv'', Width = 3840, Height = 2160, AudioCodec = []\<rparr>"

definition example_options :: TranscodeOptions where
  "example_options =
     \<lparr>StreamType = StreamTypeMKV, VideoFile = example_file, Resolution = ''LOW'', StartTime = 0\<rparr>"

definition example_writer :: ResponseWriter where
  "example_writer = \<lparr>calls = [], writeResult = (\<lambda>k. None)\<rparr>"

definition example_broken_pipe :: error where
  "example_broken_pipe =
     wrapError ''write tcp 127.0.0.1:9999: write: broken pipe'' (Errno ''broken pipe'' 32)"

definition example_writer_gone :: ResponseWriter where
  "example_writer_gone =
     \<lparr>calls = [], writeResult = (\<lambda>k. if k = 4 then Some example_broken_pipe else None)\<rparr>"

definition example_writer_reset :: ResponseWriter where
  "example_writer_reset =
     \<lparr>calls = [],
      writeResult = (\<lambda>k. if k = 4 then Some (errorString ''connection reset'') else None)\<rparr>"

definition example_stdout :: Reader where
  "example_stdout = \<lparr>chunks = [''ab'', ''cd''], readErr = None\<rparr>"

definition example_sm_failing :: StreamManager where
  "example_sm_failing =
     example_sm\<lparr>encoder := example_encoder
       \<lparr>Command := (\<lambda>ctx args. example_cmd\<lparr>Start := Some (errorString ''exec: no ffmpeg'')\<rparr>)\<rparr>\<rparr>"

definition example_sm_noisy :: StreamManager where
  "example_sm_noisy =
     example_sm\<lparr>encoder := example_encoder
       \<lparr>Command := (\<lambda>ctx args. example_cmd\<lparr>StderrPipe := Inr ''Conversion failed!''\<rparr>)\<rparr>\<rparr>"

definition example_sm_closing :: StreamManager where
  "example_sm_closing =
     example_sm\<lparr>encoder := example_encoder
       \<lparr>Command := (\<lambda>ctx args. example_cmd\<lparr>WaitClosesStdout := Some 1\<rparr>)\<rparr>\<rparr>"

section \<open>Unfolded forms\<close>

lemmas VideoCodec_defs =
  VideoCodecLibX264_def VideoCodecVP9_def VideoCodecCopy_def VideoCodecN264_def
  VideoCodecI264_def VideoCodecV264_def VideoCodecA264_def VideoCodecM264_def
  VideoCodecO264_def VideoCodecIVP9_def VideoCodecVVP9_def

lemmas Mime_defs = MimeMp4Video_def MimeWebmVideo_def MimeMkvVideo_def

lemmas Args_builder_defs =
  Args_VideoCodec_def Args_VideoFilter_def Args_SkipAudio_def Args_AudioCodec_def
  Args_Format_def Args_LogLevel_def Args_Input_def Args_Output_def

lemmas StreamType_defs = StreamTypeMP4_def StreamTypeWEBM_def StreamTypeMKV_def

lemmas example_defs =
  example_deps_def example_cmd_def example_encoder_def example_config_def example_sm_def
  example_file_def example_options_def

lemma MimeType_StreamType:
  "MimeType StreamTypeMP4 = MimeMp4Video"
  "MimeType StreamTypeWEBM = MimeWebmVideo"
  "MimeType StreamTypeMKV = MimeMkvVideo"
  by (simp_all add: StreamType_defs)

lemma Args_MP4_eq:
  "Args StreamTypeMP4 c f v =
     CodecInit c @ [''-movflags'', ''frag_keyframe+empty_moov'']
       @ (if f = [] then [] else [''-vf'', f])
       @ (if v then [''-an''] else [''-ac'', ''2'']) @ [''-f'', ''mp4'']"
  by (simp add: StreamTypeMP4_def Args_VideoFilter_def Args_SkipAudio_def Args_Format_def
      FormatMP4_def Let_def)

lemma Args_WEBM_eq:
  "Args StreamTypeWEBM c f v =
     CodecInit c @ (if f = [] then [] else [''-vf'', f])
       @ (if v then [''-an''] else [''-ac'', ''2'']) @ [''-f'', ''webm'']"
  by (simp add: StreamTypeWEBM_def Args_VideoFilter_def Args_SkipAudio_def Args_Format_def
      FormatWebm_def Let_def)

lemma Args_MKV_eq:
  "Args StreamTypeMKV c f v =
     CodecInit c
       @ (if v then [''-an'']
          else [''-c:a'', ''libopus'', ''-b:a'', ''96k'', ''-vbr'', ''on'', ''-ac'', ''2''])
       @ [''-f'', ''matroska'']"
  by (simp add: StreamTypeMKV_def Args_AudioCodec_def Args_SkipAudio_def Args_Format_def
      FormatMatroska_def AudioCodecLibOpus_def Let_def)

lemma makeStreamArgs_eq:
  "makeStreamArgs d sm options =
     (let codec = FileGetCodec sm (MimeType (StreamType options));
          input = hwDeviceInit (encoder sm) [''-hide_banner'', ''-v'', ''error''] codec
                    @ GetLiveTranscodeInputArgs (config sm);
          maxTranscodeSize =
            (if Resolution options = []
             then GetMaxResolution d (GetMaxStreamingTranscodeSize (config sm))
             else GetMaxResolution d (Resolution options))
      in (if StartTime options = 0 then input else Seek d input (StartTime options))
           @ [''-i'', Path (VideoFile options)]
           @ Args (StreamType options) codec
               (hwMaxResFilter (encoder sm) codec (Width (VideoFile options))
                  (Height (VideoFile options)) maxTranscodeSize)
               (ProbeAudioCodec d (AudioCodec (VideoFile options)) = MissingUnsupported d)
           @ GetLiveTranscodeOutputArgs (config sm) @ [''pipe:''])"
  by (simp add: makeStreamArgs_def Let_def Args_LogLevel_def LogLevelError_def Args_Input_def
      Args_Output_def)

lemmas example_io_defs =
  example_writer_def example_broken_pipe_def example_writer_gone_def example_writer_reset_def
  example_stdout_def example_sm_failing_def example_sm_noisy_def example_sm_closing_def

lemmas writer_defs =
  ResponseWriter_Header_Set_def ResponseWriter_WriteHeader_def ResponseWriter_Write_def
  ResponseWriter_Flush_def StatusOK_def StatusBadRequest_def

lemma io_Copy_calls:
  "\<exists>n\<le>length bs. calls (fst (io_Copy w bs r)) = calls w @ map Write (take n bs)"
proof (induction bs arbitrary: w)
  case Nil
  then show ?case by simp
next
  case (Cons b bs)
  show ?case
  proof (cases "writeResult w (length (calls w))")
    case (Some e)
    then have "calls (fst (io_Copy w (b # bs) r)) = calls w @ map Write (take 1 (b # bs))"
      by (simp add: ResponseWriter_Write_def)
    then show ?thesis by (intro exI [of _ 1]) simp
  next
    case None
    obtain n where n: "n \<le> length bs"
      and c: "calls (fst (io_Copy (w\<lparr>calls := calls w @ [Write b]\<rparr>) bs r))
                = calls (w\<lparr>calls := calls w @ [Write b]\<rparr>) @ map Write (take n bs)"
      using Cons.IH by blast
    from None c have "calls (fst (io_Copy w (b # bs) r)) = calls w @ map Write (take (Suc n) (b # bs))"
      by (simp add: ResponseWriter_Write_def)
    with n show ?thesis by (intro exI [of _ "Suc n"]) simp
  qed
qed

lemma transcodeHandler_eq:
  "transcodeHandler mimeType stdout w =
     (ResponseWriter_Flush (fst (io_Copy (headers_written mimeType w) (chunks stdout) (readErr stdout))),
      case snd (io_Copy (headers_written mimeType w) (chunks stdout) (readErr stdout)) of
        None \<Rightarrow> []
      | Some e \<Rightarrow>
          if errors_Is_Errno e EPIPE then []
          else [Errorf (''[transcode] error serving transcoded video file: '' @ Error e)])"
  by (simp add: transcodeHandler_def headers_written_def Let_def split: prod.split option.split)

lemma calls_headers_written:
  "calls (headers_written mimeType w) =
     calls w @ [Header_Set ''Cache-Control'' ''no-store'', Header_Set ''Content-Type'' mimeType,
                WriteHeader 200]"
  by (simp add: headers_written_def ResponseWriter_WriteHeader_def ResponseWriter_Header_Set_def
      StatusOK_def)

lemma transcodeHandler_calls:
  "\<exists>n\<le>length (chunks stdout).
     calls (fst (transcodeHandler mimeType stdout w)) =
       calls w @ [Header_Set ''Cache-Control'' ''no-store'', Header_Set ''Content-Type'' mimeType,
                  WriteHeader 200]
         @ map Write (take n (chunks stdout)) @ [Flush]"
proof -
  obtain n where "n \<le> length (chunks stdout)"
    and "calls (fst (io_Copy (headers_written mimeType w) (chunks stdout) (readErr stdout)))
           = calls (headers_written mimeType w) @ map Write (take n (chunks stdout))"
    using io_Copy_calls by blast
  then show ?thesis
    by (intro exI [of _ n]) (simp add: transcodeHandler_eq ResponseWriter_Flush_def calls_headers_written)
qed

lemma getTranscodeStream_eq:
  "getTranscodeStream d sm ctx options =
     (case StdoutPipe (Command (encoder sm) ctx (makeStreamArgs d sm options)) of
        Inl err \<Rightarrow>
          \<lparr>ret = Inl err, lockCtx = ctx,
           logged = [Errorf (''[transcode] ffmpeg stdout not available: '' @ Error err)],
           spawned = None\<rparr>
      | Inr stdout \<Rightarrow>
          (case StderrPipe (Command (encoder sm) ctx (makeStreamArgs d sm options)) of
             Inl err \<Rightarrow>
               \<lparr>ret = Inl err, lockCtx = ctx,
                logged = [Errorf (''[transcode] ffmpeg stderr not available: '' @ Error err)],
                spawned = None\<rparr>
           | Inr stderr \<Rightarrow>
               (case Start (Command (encoder sm) ctx (makeStreamArgs d sm options)) of
                  Some err \<Rightarrow> \<lparr>ret = Inl err, lockCtx = ctx, logged = [], spawned = None\<rparr>
                | None \<Rightarrow>
                    \<lparr>ret = Inr (transcodeHandler (MimeType (StreamType options))
                        (stdoutUnderWait (Command (encoder sm) ctx (makeStreamArgs d sm options)) stdout)),
                     lockCtx = AttachCommand ctx (Command (encoder sm) ctx (makeStreamArgs d sm options)),
                     logged = [],
                     spawned = Some (stderrDrain (Command (encoder sm) ctx (makeStreamArgs d sm options)) stderr)\<rparr>)))"
  by (simp add: getTranscodeStream_def Let_def)

lemma ServeTranscode_Inl:
  "ret (getTranscodeStream d sm (ReadLock (Path (VideoFile options))) options) = Inl e \<Longrightarrow>
   calls (response (ServeTranscode d sm w options)) = calls w @ [WriteHeader 400, Write (Error e)]"
  by (simp add: ServeTranscode_def Let_def ResponseWriter_Write_def ResponseWriter_WriteHeader_def
      StatusBadRequest_def split: option.split)

lemma ServeTranscode_Inr:
  "ret (getTranscodeStream d sm (ReadLock (Path (VideoFile options))) options) = Inr h \<Longrightarrow>
   response (ServeTranscode d sm w options) = fst (h w)"
  by (simp add: ServeTranscode_def Let_def split: prod.split)





lemma chunks_stdoutUnderWait:
  "chunks (stdoutUnderWait cmd stdout) =
     (case WaitClosesStdout cmd of
        None \<Rightarrow> chunks stdout
      | Some k \<Rightarrow> take k (chunks stdout))"
  by (simp add: stdoutUnderWait_def split: option.split)

lemma ServeTranscode_started:
  assumes "StdoutPipe (Command (encoder sm) (ReadLock (Path (VideoFile options)))
                        (makeStreamArgs d sm options)) = Inr out"
    and "StderrPipe (Command (encoder sm) (ReadLock (Path (VideoFile options)))
                        (makeStreamArgs d sm options)) = Inr errs"
    and "Start (Command (encoder sm) (ReadLock (Path (VideoFile options)))
                        (makeStreamArgs d sm options)) = None"
  shows "response (ServeTranscode d sm w options)
           = fst (transcodeHandler (MimeType (StreamType options))
               (stdoutUnderWait (Command (encoder sm) (ReadLock (Path (VideoFile options)))
                  (makeStreamArgs d sm options)) out) w)"
    and "served_spawned (ServeTranscode d sm w options)
           = Some (stderrDrain (Command (encoder sm) (ReadLock (Path (VideoFile options)))
                  (makeStreamArgs d sm options)) errs)"
  using assms
  by (simp_all add: ServeTranscode_def getTranscodeStream_eq Let_def split: prod.split)

lemma ServeTranscode_started_calls:
  assumes "StdoutPipe (Command (encoder sm) (ReadLock (Path (VideoFile options)))
                        (makeStreamArgs d sm options)) = Inr out"
    and "StderrPipe (Command (encoder sm) (ReadLock (Path (VideoFile options)))
                        (makeStreamArgs d sm options)) = Inr errs"
    and "Start (Command (encoder sm) (ReadLock (Path (VideoFile options)))
                        (makeStreamArgs d sm options)) = None"
  shows "\<exists>n\<le>length (chunks out).
           calls (response (ServeTranscode d sm w options)) =
             calls w @ [Header_Set ''Cache-Control'' ''no-store'',
                        Header_Set ''Content-Type'' (MimeType (StreamType options)),
                        WriteHeader 200]
               @ map Write (take n (chunks out)) @ [Flush]"
proof -
  let ?cmd = "Command (encoder sm) (ReadLock (Path (VideoFile options))) (makeStreamArgs d sm options)"
  obtain n where n: "n \<le> length (chunks (stdoutUnderWait ?cmd out))"
    and c: "calls (fst (transcodeHandler (MimeType (StreamType options)) (stdoutUnderWait ?cmd out) w)) =
       calls w @ [Header_Set ''Cache-Control'' ''no-store'',
                  Header_Set ''Content-Type'' (MimeType (StreamType options)), WriteHeader 200]
         @ map Write (take n (chunks (stdoutUnderWait ?cmd out))) @ [Flush]"
    using transcodeHandler_calls by blast
  obtain m where m: "m \<le> length (chunks out)"
    and t: "take n (chunks (stdoutUnderWait ?cmd out)) = take m (chunks out)"
  proof (cases "WaitClosesStdout ?cmd")
    case None
    with n show ?thesis by (intro that [of n]) (simp_all add: chunks_stdoutUnderWait)
  next
    case (Some k)
    with n have "n \<le> length (chunks out)" "n \<le> k"
      by (simp_all add: chunks_stdoutUnderWait)
    with Some show ?thesis
      by (intro that [of n]) (simp_all add: chunks_stdoutUnderWait min_absorb1)
  qed
  show ?thesis
    using m c t by (intro exI [of _ m]) (simp add: ServeTranscode_started(1) [OF assms])
qed

section \<open>Codec selection\<close>

text \<open>
  C1. For each supported container MIME type FileGetCodec returns the container's
  software default (libx264 for MP4, VP9 for WebM, copy for Matroska); it returns the
  probed hardware codec instead exactly when hardware acceleration is enabled in the
  configuration and the probe reports a compatible codec for that container. For
  Matroska the result is the copy codec whatever the configuration and the probe say.
\<close>

theorem FileGetCodec_policy:
  "FileGetCodec sm MimeMp4Video =
     (if GetTranscodeHardwareAcceleration (config sm) \<and> hwCodecMP4Compatible (encoder sm) \<noteq> None
      then the (hwCodecMP4Compatible (encoder sm)) else VideoCodecLibX264)
   \<and> FileGetCodec sm MimeWebmVideo =
     (if GetTranscodeHardwareAcceleration (config sm) \<and> hwCodecWEBMCompatible (encoder sm) \<noteq> None
      then the (hwCodecWEBMCompatible (encoder sm)) else VideoCodecVP9)
   \<and> FileGetCodec sm MimeMkvVideo = VideoCodecCopy"
  by (simp add: FileGetCodec_def Mime_defs split: option.split)

theorem FileGetCodec_policy_witness:
  "FileGetCodec example_sm MimeMp4Video = ''libx264''
   \<and> FileGetCodec
        (example_sm\<lparr>config := example_config\<lparr>GetTranscodeHardwareAcceleration := True\<rparr>\<rparr>)
        MimeMp4Video = ''h264_nvenc''
   \<and> FileGetCodec
        (example_sm\<lparr>config := example_config\<lparr>GetTranscodeHardwareAcceleration := True\<rparr>\<rparr>)
        MimeWebmVideo = ''libvpx-vp9''
   \<and> FileGetCodec
        (example_sm\<lparr>config := example_config\<lparr>GetTranscodeHardwareAcceleration := True\<rparr>\<rparr>)
        MimeMkvVideo = ''copy''"
  using FileGetCodec_policy [of example_sm]
    FileGetCodec_policy
      [of "example_sm\<lparr>config := example_config\<lparr>GetTranscodeHardwareAcceleration := True\<rparr>\<rparr>"]
  by (simp add: example_defs VideoCodec_defs)

section \<open>Argument lists of the stream formats\<close>

text \<open>
  C2, as the specification states it, fails for Matroska: the Matroska format never
  applies the video filter, whether it is empty or not. Here a scaling filter is passed
  and the list holds neither the filter flag nor the filter.
\<close>

theorem Args_MKV_ignores_filter:
  "Args StreamTypeMKV VideoCodecCopy ''scale=1280:-2'' False =
     [''-c:v'', ''copy'', ''-c:a'', ''libopus'', ''-b:a'', ''96k'', ''-vbr'', ''on'',
      ''-ac'', ''2'', ''-f'', ''matroska'']
   \<and> ''-vf'' \<notin> set (Args StreamTypeMKV VideoCodecCopy ''scale=1280:-2'' False)
   \<and> ''scale=1280:-2'' \<notin> set (Args StreamTypeMKV VideoCodecCopy ''scale=1280:-2'' False)"
  by (simp add: Args_MKV_eq CodecInit_def Args_VideoCodec_def VideoCodec_defs)

text \<open>
  C2, amended. For each of the three stream formats, every codec, every video filter and
  either value of videoOnly, the argument list is the codec-initialization fragment of
  the codec followed by flags that do not depend on the codec. The fragment holds the
  codec flag with the codec once, in front (nothing for the empty codec), and no codec
  flag among its tuning flags; no codec flag follows the fragment, unless the filter is
  itself that word. After the fragment, the MP4 and WebM formats hold the filter flag
  with the filter, once, if and only if the filter is non-empty; the Matroska format
  never applies the filter.
\<close>

theorem Args_codec_fragment_and_filter:
  "Args StreamTypeMP4 c f v =
     CodecInit c @ [''-movflags'', ''frag_keyframe+empty_moov'']
       @ (if f = [] then [] else [''-vf'', f])
       @ (if v then [''-an''] else [''-ac'', ''2'']) @ [''-f'', ''mp4'']
   \<and> Args StreamTypeWEBM c f v =
     CodecInit c @ (if f = [] then [] else [''-vf'', f])
       @ (if v then [''-an''] else [''-ac'', ''2'']) @ [''-f'', ''webm'']
   \<and> Args StreamTypeMKV c f v =
     CodecInit c
       @ (if v then [''-an'']
          else [''-c:a'', ''libopus'', ''-b:a'', ''96k'', ''-vbr'', ''on'', ''-ac'', ''2''])
       @ [''-f'', ''matroska'']
   \<and> take 2 (CodecInit c) = (if c = [] then [] else [''-c:v'', c])
   \<and> ''-c:v'' \<notin> set (drop 2 (CodecInit c))
   \<and> count_list (drop (length (CodecInit c)) (Args StreamTypeMP4 c f v)) ''-c:v''
       = (if f = ''-c:v'' then 1 else 0)
   \<and> count_list (drop (length (CodecInit c)) (Args StreamTypeWEBM c f v)) ''-c:v''
       = (if f = ''-c:v'' then 1 else 0)
   \<and> count_list (drop (length (CodecInit c)) (Args StreamTypeMKV c f v)) ''-c:v'' = 0"
proof -
  have t: "take 2 (CodecInit c) = (if c = [] then [] else [''-c:v'', c])"
    by (simp add: CodecInit_def Args_VideoCodec_def Let_def VideoCodec_defs)
  have d: "''-c:v'' \<notin> set (drop 2 (CodecInit c))"
    by (simp add: CodecInit_def Args_VideoCodec_def Let_def VideoCodec_defs)
  have 1: "count_list (drop (length (CodecInit c)) (Args StreamTypeMP4 c f v)) ''-c:v''
       = (if f = ''-c:v'' then 1 else 0)"
    by (simp add: Args_MP4_eq)
  have 2: "count_list (drop (length (CodecInit c)) (Args StreamTypeWEBM c f v)) ''-c:v''
       = (if f = ''-c:v'' then 1 else 0)"
    by (simp add: Args_WEBM_eq)
  have 3: "count_list (drop (length (CodecInit c)) (Args StreamTypeMKV c f v)) ''-c:v'' = 0"
    by (simp add: Args_MKV_eq)
  from Args_MP4_eq [of c f v] Args_WEBM_eq [of c f v] Args_MKV_eq [of c f v] t d 1 2 3
  show ?thesis by blast
qed

text \<open>
  C3. In each of the three stream formats, videoOnly replaces the audio handling by the
  single flag that omits the audio track; otherwise MP4 and WebM force two channels and
  Matroska sets the Opus audio codec at 96k, variable bit rate, with two channels.
  makeStreamArgs calls the format with videoOnly true exactly when the probe of the
  file's audio codec answers MissingUnsupported.
\<close>

theorem Args_audio_handling:
  "Args StreamTypeMP4 c f v =
     Args_VideoFilter (CodecInit c @ [''-movflags'', ''frag_keyframe+empty_moov'']) f
       @ (if v then [''-an''] else [''-ac'', ''2'']) @ [''-f'', ''mp4'']
   \<and> Args StreamTypeWEBM c f v =
     Args_VideoFilter (CodecInit c) f
       @ (if v then [''-an''] else [''-ac'', ''2'']) @ [''-f'', ''webm'']
   \<and> Args StreamTypeMKV c f v =
     CodecInit c
       @ (if v then [''-an'']
          else [''-c:a'', ''libopus'', ''-b:a'', ''96k'', ''-vbr'', ''on'', ''-ac'', ''2''])
       @ [''-f'', ''matroska'']
   \<and> (\<exists>input. makeStreamArgs d sm options =
         input @ [''-i'', Path (VideoFile options)]
           @ Args (StreamType options) (FileGetCodec sm (MimeType (StreamType options)))
               (hwMaxResFilter (encoder sm) (FileGetCodec sm (MimeType (StreamType options)))
                  (Width (VideoFile options)) (Height (VideoFile options))
                  (if Resolution options = []
                   then GetMaxResolution d (GetMaxStreamingTranscodeSize (config sm))
                   else GetMaxResolution d (Resolution options)))
               (ProbeAudioCodec d (AudioCodec (VideoFile options)) = MissingUnsupported d)
           @ GetLiveTranscodeOutputArgs (config sm) @ [''pipe:''])"
proof -
  have mp4: "Args StreamTypeMP4 c f v =
     Args_VideoFilter (CodecInit c @ [''-movflags'', ''frag_keyframe+empty_moov'']) f
       @ (if v then [''-an''] else [''-ac'', ''2'']) @ [''-f'', ''mp4'']"
    by (simp add: Args_MP4_eq Args_VideoFilter_def)
  have webm: "Args StreamTypeWEBM c f v =
     Args_VideoFilter (CodecInit c) f
       @ (if v then [''-an''] else [''-ac'', ''2'']) @ [''-f'', ''webm'']"
    by (simp add: Args_WEBM_eq Args_VideoFilter_def)
  have mk: "\<exists>input. makeStreamArgs d sm options =
         input @ [''-i'', Path (VideoFile options)]
           @ Args (StreamType options) (FileGetCodec sm (MimeType (StreamType options)))
               (hwMaxResFilter (encoder sm) (FileGetCodec sm (MimeType (StreamType options)))
                  (Width (VideoFile options)) (Height (VideoFile options))
                  (if Resolution options = []
                   then GetMaxResolution d (GetMaxStreamingTranscodeSize (config sm))
                   else GetMaxResolution d (Resolution options)))
               (ProbeAudioCodec d (AudioCodec (VideoFile options)) = MissingUnsupported d)
           @ GetLiveTranscodeOutputArgs (config sm) @ [''pipe:'']"
    unfolding makeStreamArgs_eq Let_def by (rule exI) (rule refl)
  from mp4 webm Args_MKV_eq mk show ?thesis by blast
qed

theorem Args_audio_handling_witness:
  "makeStreamArgs example_deps example_sm example_options =
     [''-hide_banner'', ''-v'', ''error'', ''-i'', ''/v/a.mkv'', ''-c:v'', ''copy'', ''-an'',
      ''-f'', ''matroska'', ''pipe:'']"
  using Args_audio_handling [of VideoCodecCopy "[]" True example_deps example_sm example_options]
  by (simp add: makeStreamArgs_eq Args_MKV_eq example_defs FileGetCodec_def Mime_defs
      MimeType_StreamType CodecInit_def Args_VideoCodec_def VideoCodec_defs)

section \<open>The resolution override\<close>

text \<open>
  C10. When the Resolution of the options is a non-empty string, the argument list does
  not depend on the configured maximum streaming resolution: the cap passed to the
  filter computation is the maximum resolution of the override, whatever the configured
  maximum is, so the override is not clamped to it.
\<close>

theorem resolution_override_not_clamped:
  assumes "Resolution options \<noteq> []"
  shows "makeStreamArgs d (sm\<lparr>config := (config sm)\<lparr>GetMaxStreamingTranscodeSize := m\<rparr>\<rparr>) options
           = makeStreamArgs d sm options
       \<and> (\<exists>input. makeStreamArgs d sm options =
         input @ [''-i'', Path (VideoFile options)]
           @ Args (StreamType options) (FileGetCodec sm (MimeType (StreamType options)))
               (hwMaxResFilter (encoder sm) (FileGetCodec sm (MimeType (StreamType options)))
                  (Width (VideoFile options)) (Height (VideoFile options))
                  (GetMaxResolution d (Resolution options)))
               (ProbeAudioCodec d (AudioCodec (VideoFile options)) = MissingUnsupported d)
           @ GetLiveTranscodeOutputArgs (config sm) @ [''pipe:''])"
proof -
  have codec: "FileGetCodec (sm\<lparr>config := (config sm)\<lparr>GetMaxStreamingTranscodeSize := m\<rparr>\<rparr>) t
      = FileGetCodec sm t" for t
    by (simp add: FileGetCodec_def split: option.split)
  have indep: "makeStreamArgs d (sm\<lparr>config := (config sm)\<lparr>GetMaxStreamingTranscodeSize := m\<rparr>\<rparr>) options
           = makeStreamArgs d sm options"
    using assms by (simp add: makeStreamArgs_eq codec Let_def)
  have shape: "\<exists>input. makeStreamArgs d sm options =
         input @ [''-i'', Path (VideoFile options)]
           @ Args (StreamType options) (FileGetCodec sm (MimeType (StreamType options)))
               (hwMaxResFilter (encoder sm) (FileGetCodec sm (MimeType (StreamType options)))
                  (Width (VideoFile options)) (Height (VideoFile options))
                  (GetMaxResolution d (Resolution options)))
               (ProbeAudioCodec d (AudioCodec (VideoFile options)) = MissingUnsupported d)
           @ GetLiveTranscodeOutputArgs (config sm) @ [''pipe:'']"
    using assms unfolding makeStreamArgs_eq Let_def by (intro exI) simp
  from indep shape show ?thesis by blast
qed

theorem resolution_override_not_clamped_witness:
  "Resolution (example_options\<lparr>StreamType := StreamTypeMP4\<rparr>) \<noteq> []
   \<and> makeStreamArgs example_deps
        (example_sm\<lparr>config := (config example_sm)\<lparr>GetMaxStreamingTranscodeSize := ''LOW''\<rparr>\<rparr>)
        (example_options\<lparr>StreamType := StreamTypeMP4\<rparr>)
      = makeStreamArgs example_deps example_sm (example_options\<lparr>StreamType := StreamTypeMP4\<rparr>)
   \<and> makeStreamArgs example_deps example_sm (example_options\<lparr>StreamType := StreamTypeMP4\<rparr>)
      = [''-hide_banner'', ''-v'', ''error'', ''-i'', ''/v/a.mkv'', ''-c:v'', ''libx264'',
         ''-pix_fmt'', ''yuv420p'', ''-preset'', ''veryfast'', ''-crf'', ''25'',
         ''-sc_threshold'', ''0'', ''-movflags'', ''frag_keyframe+empty_moov'',
         ''-vf'', ''scale=-2:240'', ''-an'', ''-f'', ''mp4'', ''pipe:'']"
proof -
  have r: "Resolution (example_options\<lparr>StreamType := StreamTypeMP4\<rparr>) \<noteq> []"
    by (simp add: example_options_def)
  have v: "makeStreamArgs example_deps example_sm (example_options\<lparr>StreamType := StreamTypeMP4\<rparr>)
      = [''-hide_banner'', ''-v'', ''error'', ''-i'', ''/v/a.mkv'', ''-c:v'', ''libx264'',
         ''-pix_fmt'', ''yuv420p'', ''-preset'', ''veryfast'', ''-crf'', ''25'',
         ''-sc_threshold'', ''0'', ''-movflags'', ''frag_keyframe+empty_moov'',
         ''-vf'', ''scale=-2:240'', ''-an'', ''-f'', ''mp4'', ''pipe:'']"
    by (simp add: makeStreamArgs_eq Args_MP4_eq example_defs FileGetCodec_def Mime_defs
        MimeType_StreamType CodecInit_def Args_VideoCodec_def VideoCodec_defs)
  from r v resolution_override_not_clamped
    [OF r, where d = example_deps and sm = example_sm and m = "''LOW''"]
  show ?thesis by blast
qed

section \<open>Starting the process\<close>

text \<open>
  C4. If the transcode process fails to start, whether at the set-up of the standard
  output pipe, at the set-up of the standard error pipe or at the start step itself,
  ServeTranscode answers with status 400 and the text of that error as the body and
  makes no other call on the response; getTranscodeStream returns a handler, the one
  ServeTranscode then invokes, only when all three steps succeeded.
\<close>

theorem ServeTranscode_start_failure:
  assumes cmd: "cmd = Command (encoder sm) (ReadLock (Path (VideoFile options)))
                        (makeStreamArgs d sm options)"
  shows "(StdoutPipe cmd = Inl e \<longrightarrow>
            calls (response (ServeTranscode d sm w options))
              = calls w @ [WriteHeader 400, Write (Error e)])
       \<and> (StdoutPipe cmd = Inr out \<and> StderrPipe cmd = Inl e \<longrightarrow>
            calls (response (ServeTranscode d sm w options))
              = calls w @ [WriteHeader 400, Write (Error e)])
       \<and> (StdoutPipe cmd = Inr out \<and> StderrPipe cmd = Inr errs \<and> Start cmd = Some e \<longrightarrow>
            calls (response (ServeTranscode d sm w options))
              = calls w @ [WriteHeader 400, Write (Error e)])
       \<and> ((\<exists>h. ret (getTranscodeStream d sm (ReadLock (Path (VideoFile options))) options) = Inr h)
            \<longrightarrow> (\<exists>out errs. StdoutPipe cmd = Inr out \<and> StderrPipe cmd = Inr errs \<and> Start cmd = None))
       \<and> (ret (getTranscodeStream d sm (ReadLock (Path (VideoFile options))) options) = Inr h
            \<longrightarrow> response (ServeTranscode d sm w options) = fst (h w))"
proof (intro conjI impI)
  assume "StdoutPipe cmd = Inl e"
  then have "ret (getTranscodeStream d sm (ReadLock (Path (VideoFile options))) options) = Inl e"
    using cmd by (simp add: getTranscodeStream_eq)
  then show "calls (response (ServeTranscode d sm w options))
              = calls w @ [WriteHeader 400, Write (Error e)]"
    by (rule ServeTranscode_Inl)
next
  assume "StdoutPipe cmd = Inr out \<and> StderrPipe cmd = Inl e"
  then have "ret (getTranscodeStream d sm (ReadLock (Path (VideoFile options))) options) = Inl e"
    using cmd by (simp add: getTranscodeStream_eq)
  then show "calls (response (ServeTranscode d sm w options))
              = calls w @ [WriteHeader 400, Write (Error e)]"
    by (rule ServeTranscode_Inl)
next
  assume "StdoutPipe cmd = Inr out \<and> StderrPipe cmd = Inr errs \<and> Start cmd = Some e"
  then have "ret (getTranscodeStream d sm (ReadLock (Path (VideoFile options))) options) = Inl e"
    using cmd by (simp add: getTranscodeStream_eq)
  then show "calls (response (ServeTranscode d sm w options))
              = calls w @ [WriteHeader 400, Write (Error e)]"
    by (rule ServeTranscode_Inl)
next
  assume "\<exists>h. ret (getTranscodeStream d sm (ReadLock (Path (VideoFile options))) options) = Inr h"
  then show "\<exists>out errs. StdoutPipe cmd = Inr out \<and> StderrPipe cmd = Inr errs \<and> Start cmd = None"
    using cmd by (auto simp: getTranscodeStream_eq split: sum.splits option.splits)
next
  assume "ret (getTranscodeStream d sm (ReadLock (Path (VideoFile options))) options) = Inr h"
  then show "response (ServeTranscode d sm w options) = fst (h w)"
    by (rule ServeTranscode_Inr)
qed

theorem ServeTranscode_start_failure_witness:
  "Start (Command (encoder example_sm_failing) (ReadLock (Path (VideoFile example_options)))
            (makeStreamArgs example_deps example_sm_failing example_options))
     = Some (errorString ''exec: no ffmpeg'')
   \<and> calls (response (ServeTranscode example_deps example_sm_failing example_writer example_options))
     = [WriteHeader 400, Write ''exec: no ffmpeg'']"
  using ServeTranscode_start_failure
    [OF refl, where sm = example_sm_failing and d = example_deps and options = example_options
       and w = example_writer and e = "errorString ''exec: no ffmpeg''"
       and out = example_stdout and errs = "[]"]
  by (simp add: example_defs example_io_defs)

text \<open>
  C9. A lock context gets at most one command attached per request: getTranscodeStream
  attaches the command once, and only when the two pipe set-ups and the start step have
  succeeded; on any failure of these it attaches nothing. The context that ServeTranscode
  obtains for the request therefore holds at most one command.
\<close>

theorem attach_at_most_once:
  "attached (lockCtx (getTranscodeStream d sm ctx options)) =
     attached ctx @
       (let cmd = Command (encoder sm) ctx (makeStreamArgs d sm options)
        in case (StdoutPipe cmd, StderrPipe cmd, Start cmd) of
             (Inr out, Inr errs, None) \<Rightarrow> [cmd]
           | _ \<Rightarrow> [])
   \<and> attached (served_ctx (ServeTranscode d sm w options)) =
       (let cmd = Command (encoder sm) (ReadLock (Path (VideoFile options)))
                    (makeStreamArgs d sm options)
        in case (StdoutPipe cmd, StderrPipe cmd, Start cmd) of
             (Inr out, Inr errs, None) \<Rightarrow> [cmd]
           | _ \<Rightarrow> [])
   \<and> length (attached (served_ctx (ServeTranscode d sm w options))) \<le> 1"
proof -
  have a: "attached (lockCtx (getTranscodeStream d sm c options)) =
     attached c @
       (let cmd = Command (encoder sm) c (makeStreamArgs d sm options)
        in case (StdoutPipe cmd, StderrPipe cmd, Start cmd) of
             (Inr out, Inr errs, None) \<Rightarrow> [cmd]
           | _ \<Rightarrow> [])" for c
    by (simp add: getTranscodeStream_eq AttachCommand_def Let_def split: sum.split option.split)
  have b: "served_ctx (ServeTranscode d sm w options)
             = lockCtx (getTranscodeStream d sm (ReadLock (Path (VideoFile options))) options)"
    by (simp add: ServeTranscode_def Let_def split: sum.split prod.split)
  have c: "attached (served_ctx (ServeTranscode d sm w options)) =
       (let cmd = Command (encoder sm) (ReadLock (Path (VideoFile options)))
                    (makeStreamArgs d sm options)
        in case (StdoutPipe cmd, StderrPipe cmd, Start cmd) of
             (Inr out, Inr errs, None) \<Rightarrow> [cmd]
           | _ \<Rightarrow> [])"
    unfolding b a by (simp add: ReadLock_def)
  have "length (attached (served_ctx (ServeTranscode d sm w options))) \<le> 1"
    unfolding c by (simp add: Let_def split: sum.split option.split)
  with a c show ?thesis by blast
qed

theorem attach_at_most_once_witness:
  "length (attached (served_ctx
      (ServeTranscode example_deps example_sm example_writer example_options))) = 1
   \<and> attached (served_ctx
      (ServeTranscode example_deps example_sm_failing example_writer example_options)) = []"
  using attach_at_most_once [of example_deps example_sm "ReadLock ''x''" example_options example_writer]
    attach_at_most_once [of example_deps example_sm_failing "ReadLock ''x''" example_options example_writer]
  by (simp add: Let_def example_defs example_io_defs)

section \<open>Streaming\<close>

text \<open>
  C8. When the process has started, the response begins with the header Cache-Control
  set to no-store, the header Content-Type set to the MIME type of the selected stream
  format and status 200, in this order; every write of body bytes comes after them.
\<close>

theorem streaming_response_headers:
  assumes cmd: "cmd = Command (encoder sm) (ReadLock (Path (VideoFile options)))
                        (makeStreamArgs d sm options)"
    and ok: "StdoutPipe cmd = Inr out" "StderrPipe cmd = Inr errs" "Start cmd = None"
  shows "\<exists>n\<le>length (chunks out).
           calls (response (ServeTranscode d sm w options)) =
             calls w @ [Header_Set ''Cache-Control'' ''no-store'',
                        Header_Set ''Content-Type'' (MimeType (StreamType options)),
                        WriteHeader 200]
               @ map Write (take n (chunks out)) @ [Flush]"
  using ok unfolding cmd by (rule ServeTranscode_started_calls)

theorem streaming_response_headers_witness:
  "calls (response (ServeTranscode example_deps example_sm example_writer example_options))
     = [Header_Set ''Cache-Control'' ''no-store'', Header_Set ''Content-Type'' ''video/x-matroska'',
        WriteHeader 200, Write ''ab'', Write ''cd'', Flush]"
proof -
  let ?cmd = "Command (encoder example_sm) (ReadLock (Path (VideoFile example_options)))
                (makeStreamArgs example_deps example_sm example_options)"
  have 1: "StdoutPipe ?cmd = Inr example_stdout"
    by (simp add: example_defs example_io_defs)
  have 2: "StderrPipe ?cmd = Inr []"
    by (simp add: example_defs)
  have 3: "Start ?cmd = None"
    by (simp add: example_defs)
  from streaming_response_headers [OF refl 1 2 3, of example_writer]
  obtain n where n: "n \<le> length (chunks example_stdout)"
    and c: "calls (response (ServeTranscode example_deps example_sm example_writer example_options)) =
             calls example_writer @ [Header_Set ''Cache-Control'' ''no-store'',
                        Header_Set ''Content-Type'' (MimeType (StreamType example_options)),
                        WriteHeader 200]
               @ map Write (take n (chunks example_stdout)) @ [Flush]"
    by blast
  have v: "calls (response (ServeTranscode example_deps example_sm example_writer example_options))
     = [Header_Set ''Cache-Control'' ''no-store'', Header_Set ''Content-Type'' ''video/x-matroska'',
        WriteHeader 200, Write ''ab'', Write ''cd'', Flush]"
    by (simp add: ServeTranscode_def getTranscodeStream_eq transcodeHandler_def Let_def
        example_defs example_io_defs writer_defs MimeType_StreamType Mime_defs ReadLock_def
        stdoutUnderWait_def)
  from c v show ?thesis by simp
qed




text \<open>
  C6. When the copy from the standard output to the response fails with an error that
  is a broken pipe (the client has gone), the handler logs nothing; for any other copy
  error it logs one error entry with the text of the error. In both cases nothing about
  the error reaches the client: after the headers the handler only writes chunks of the
  standard output and then flushes.
\<close>

theorem copy_error_handling:
  assumes "snd (io_Copy (headers_written mimeType w) (chunks stdout) (readErr stdout)) = Some e"
  shows "(errors_Is_Errno e EPIPE \<longrightarrow> snd (transcodeHandler mimeType stdout w) = [])
       \<and> (\<not> errors_Is_Errno e EPIPE \<longrightarrow>
            snd (transcodeHandler mimeType stdout w)
              = [Errorf (''[transcode] error serving transcoded video file: '' @ Error e)])
       \<and> (\<exists>n\<le>length (chunks stdout).
            calls (fst (transcodeHandler mimeType stdout w)) =
              calls (headers_written mimeType w) @ map Write (take n (chunks stdout)) @ [Flush])"
proof -
  obtain n where "n \<le> length (chunks stdout)"
    and "calls (fst (io_Copy (headers_written mimeType w) (chunks stdout) (readErr stdout)))
           = calls (headers_written mimeType w) @ map Write (take n (chunks stdout))"
    using io_Copy_calls by blast
  then have "\<exists>n\<le>length (chunks stdout).
            calls (fst (transcodeHandler mimeType stdout w)) =
              calls (headers_written mimeType w) @ map Write (take n (chunks stdout)) @ [Flush]"
    by (intro exI [of _ n]) (simp add: transcodeHandler_eq ResponseWriter_Flush_def)
  then show ?thesis using assms by (simp add: transcodeHandler_eq)
qed

theorem copy_error_handling_witness:
  "snd (io_Copy (headers_written ''video/mp4'' example_writer_gone) (chunks example_stdout)
          (readErr example_stdout)) = Some example_broken_pipe
   \<and> errors_Is_Errno example_broken_pipe EPIPE
   \<and> transcodeHandler ''video/mp4'' example_stdout example_writer_gone
       = (example_writer_gone
            \<lparr>calls := [Header_Set ''Cache-Control'' ''no-store'',
                       Header_Set ''Content-Type'' ''video/mp4'', WriteHeader 200,
                       Write ''ab'', Write ''cd'', Flush]\<rparr>, [])
   \<and> snd (transcodeHandler ''video/mp4'' example_stdout example_writer_reset)
       = [Errorf ''[transcode] error serving transcoded video file: connection reset'']"
proof -
  have h: "snd (io_Copy (headers_written ''video/mp4'' example_writer_gone) (chunks example_stdout)
          (readErr example_stdout)) = Some example_broken_pipe"
    by (simp add: headers_written_def example_io_defs writer_defs)
  have p: "errors_Is_Errno example_broken_pipe EPIPE"
    by (simp add: example_broken_pipe_def EPIPE_def)
  have c: "fst (transcodeHandler ''video/mp4'' example_stdout example_writer_gone)
       = example_writer_gone
            \<lparr>calls := [Header_Set ''Cache-Control'' ''no-store'',
                       Header_Set ''Content-Type'' ''video/mp4'', WriteHeader 200,
                       Write ''ab'', Write ''cd'', Flush]\<rparr>"
    by (simp add: transcodeHandler_def Let_def example_io_defs writer_defs)
  have r: "snd (transcodeHandler ''video/mp4'' example_stdout example_writer_reset)
       = [Errorf ''[transcode] error serving transcoded video file: connection reset'']"
    by (simp add: transcodeHandler_def Let_def example_io_defs writer_defs EPIPE_def)
  from copy_error_handling [OF h] p have "snd (transcodeHandler ''video/mp4'' example_stdout example_writer_gone) = []"
    by blast
  with h p c r show ?thesis by (simp add: prod_eq_iff)
qed

section \<open>The exit of the process\<close>




end
